theory Spec2Isabelle
  imports Complex_Main "HOL-Library.Sublist"
begin

section \<open>Python strings and integers\<close>

text \<open>
  Strings are lists of characters and are read as ASCII text: the case mappings, the
  white space and the digits below are the ASCII ones. Python's \<^verbatim>\<open>str.lower\<close>,
  \<^verbatim>\<open>str.strip\<close> and \<^verbatim>\<open>int\<close> also know the non-ASCII letters, spaces and digits of
  Unicode; those are outside this development.
\<close>

definition ord :: "char \<Rightarrow> nat" where
  "ord c = of_char c"

definition is_upper :: "char \<Rightarrow> bool" where
  "is_upper c = (65 \<le> ord c \<and> ord c \<le> 90)"

definition is_lower :: "char \<Rightarrow> bool" where
  "is_lower c = (97 \<le> ord c \<and> ord c \<le> 122)"

definition is_digit :: "char \<Rightarrow> bool" where
  "is_digit c = (48 \<le> ord c \<and> ord c \<le> 57)"

definition lower_char :: "char \<Rightarrow> char" where
  "lower_char c = (if is_upper c then char_of (ord c + 32) else c)"

definition upper_char :: "char \<Rightarrow> char" where
  "upper_char c = (if is_lower c then char_of (ord c - 32) else c)"

text \<open>\<^verbatim>\<open>s.lower()\<close> and \<^verbatim>\<open>s.upper()\<close>.\<close>

definition lower :: "string \<Rightarrow> string" where
  "lower s = map lower_char s"

definition upper :: "string \<Rightarrow> string" where
  "upper s = map upper_char s"

text \<open>The white space \<^verbatim>\<open>str.strip()\<close> removes: tab to carriage return, the four
  separators 28 to 31, and the blank.\<close>

definition is_space :: "char \<Rightarrow> bool" where
  "is_space c = ((9 \<le> ord c \<and> ord c \<le> 13) \<or> (28 \<le> ord c \<and> ord c \<le> 31) \<or> ord c = 32)"

definition strip :: "string \<Rightarrow> string" where
  "strip s = rev (dropWhile is_space (rev (dropWhile is_space s)))"

text \<open>\<^verbatim>\<open>s.split(sep)\<close> for a separator of one character: the pieces between the
  separators, empty pieces included, so the result is never the empty list.\<close>

fun split :: "char \<Rightarrow> string \<Rightarrow> string list" where
  "split sep [] = [[]]"
| "split sep (c # cs) =
     (if c = sep then [] # split sep cs
      else (case split sep cs of
              [] \<Rightarrow> [[c]]
            | p # ps \<Rightarrow> (c # p) # ps))"

text \<open>\<^verbatim>\<open>sep.join(parts)\<close>.\<close>

fun join :: "string \<Rightarrow> string list \<Rightarrow> string" where
  "join sep [] = []"
| "join sep [p] = p"
| "join sep (p # q # ps) = p @ sep @ join sep (q # ps)"

text \<open>
  \<^verbatim>\<open>int(s)\<close> on a string: white space around the literal is dropped (the blank and
  tab to carriage return; the separators 28 to 31 are not accepted here), one sign may
  lead, and the digits may be grouped by single underscores. Anything else raises
  ValueError, which is the value None.
\<close>

definition is_int_space :: "char \<Rightarrow> bool" where
  "is_int_space c = ((9 \<le> ord c \<and> ord c \<le> 13) \<or> ord c = 32)"

definition strip_int :: "string \<Rightarrow> string" where
  "strip_int s = rev (dropWhile is_int_space (rev (dropWhile is_int_space s)))"

fun digits_ok :: "string \<Rightarrow> bool" where
  "digits_ok [] = False"
| "digits_ok [c] = is_digit c"
| "digits_ok (c # d # cs) =
     (is_digit c \<and> (if d = CHR ''_'' then digits_ok cs else digits_ok (d # cs)))"

definition digit_val :: "char \<Rightarrow> int" where
  "digit_val c = int (ord c) - 48"

definition digits_val :: "string \<Rightarrow> int" where
  "digits_val ds = foldl (\<lambda>a c. 10 * a + digit_val c) 0 (filter (\<lambda>c. c \<noteq> CHR ''_'') ds)"

definition py_int :: "string \<Rightarrow> int option" where
  "py_int s =
     (case strip_int s of
        [] \<Rightarrow> None
      | c # cs \<Rightarrow>
          (if c = CHR ''-'' then (if digits_ok cs then Some (- digits_val cs) else None)
           else if c = CHR ''+'' then (if digits_ok cs then Some (digits_val cs) else None)
           else (if digits_ok (c # cs) then Some (digits_val (c # cs)) else None)))"

text \<open>\<^verbatim>\<open>str(n)\<close> of an integer, as the f-string \<^verbatim>\<open>f"{campaign_id}_{creative_id}"\<close>
  of the serving endpoint renders an identifier.\<close>

definition digit_char :: "nat \<Rightarrow> char" where
  "digit_char d = char_of (48 + d)"

function nat_digits :: "nat \<Rightarrow> string" where
  "nat_digits n = (if n < 10 then [digit_char n] else nat_digits (n div 10) @ [digit_char (n mod 10)])"
  by pat_completeness auto
termination
  by (relation "measure id") auto

declare nat_digits.simps [simp del]

definition str_int :: "int \<Rightarrow> string" where
  "str_int i = (if i < 0 then CHR ''-'' # nat_digits (nat (- i)) else nat_digits (nat i))"

section \<open>Data model\<close>

text \<open>
  Modelled from the spec: the enumeration \<^verbatim>\<open>Status\<close> of \<^verbatim>\<open>liteads.models.base\<close>
  is not among the sources; the spec names the statuses draft, active, paused and ended.
  The code only compares a status with \<^verbatim>\<open>Status.ACTIVE\<close>.
\<close>

datatype Status = DRAFT | ACTIVE | PAUSED | ENDED

text \<open>
  \<^verbatim>\<open>EventType\<close> and \<^verbatim>\<open>BidType\<close> are imported from \<^verbatim>\<open>liteads.models.base\<close> as
  well. The event type is an enumeration of three members, the ones
  \<^verbatim>\<open>_get_event_type\<close> maps to. The bid type is the integer column of the campaign
  row; the numbers of its four members are those the docstring of \<^verbatim>\<open>_calculate_cost\<close>
  gives, and any other number is a bid type that never charges.
\<close>

datatype EventType = IMPRESSION | CLICK | CONVERSION

definition CPM :: int where "CPM = 1"
definition CPC :: int where "CPC = 2"
definition CPA :: int where "CPA = 3"
definition OCPM :: int where "OCPM = 4"

text \<open>
  Stored targeting parameters are loosely typed: whatever JSON holds. Numbers are
  rationals (every finite float is one); the keys of an object are distinct, as in a
  Python dict.
\<close>

datatype json =
    JNull
  | JBool bool
  | JNum rat
  | JStr string
  | JArr "json list"
  | JObj "(string \<times> json) list"

record targeting_rule =
  rule_type :: string
  rule_value :: json
  is_include :: bool

record creative =
  cr_id :: int
  cr_title :: "string option"
  cr_description :: "string option"
  cr_image_url :: "string option"
  cr_video_url :: "string option"
  cr_landing_url :: "string option"
  cr_creative_type :: int
  cr_width :: "int option"
  cr_height :: "int option"
  cr_status :: Status

text \<open>
  A campaign row with its two relationships. Money is a \<^verbatim>\<open>Decimal\<close>, here a
  rational: \<^verbatim>\<open>Decimal\<close> addition and the division by 1000 are exact as long as the
  result has at most 28 significant digits, which the fixed-point columns guarantee.
  Of the money columns the spec marks only the budgets as nullable, so the two spend
  columns always hold a number. \<^verbatim>\<open>is_active\<close> is a property of the class \<^verbatim>\<open>Campaign\<close>, which is not among the
  sources: the row carries the value the property has when it is read.
\<close>

record campaign =
  c_id :: int
  c_advertiser_id :: int
  c_name :: string
  c_status :: Status
  is_active :: bool
  bid_type :: int
  bid_amount :: rat
  priority_boost :: "rat option"
  budget_daily :: "rat option"
  budget_total :: "rat option"
  spent_today :: rat
  spent_total :: rat
  freq_cap_daily :: "int option"
  freq_cap_hourly :: "int option"
  is_house_ad :: bool
  page_targeting :: json
  target_domains :: json
  creatives :: "creative list"
  targeting_rules :: "targeting_rule list"

text \<open>An \<^verbatim>\<open>AdEvent\<close> as \<^verbatim>\<open>track_event\<close> builds it; the event time is in seconds
  since the epoch.\<close>

record ad_event =
  request_id :: string
  campaign_id :: "int option"
  creative_id :: "int option"
  event_type :: EventType
  event_time :: int
  user_id :: "string option"
  cost :: rat

text \<open>The dictionaries of the cached snapshot: one per active creative, one per
  campaign. \<^verbatim>\<open>float(x)\<close> of a \<^verbatim>\<open>Decimal\<close> is kept as the number it rounds; these
  numbers are only carried along.\<close>

record creative_data =
  crd_id :: int
  crd_title :: "string option"
  crd_description :: "string option"
  crd_image_url :: "string option"
  crd_video_url :: "string option"
  crd_landing_url :: "string option"
  crd_creative_type :: int
  crd_width :: "int option"
  crd_height :: "int option"

record campaign_data =
  cd_id :: int
  cd_advertiser_id :: int
  cd_name :: string
  cd_bid_type :: int
  cd_bid_amount :: rat
  cd_priority_boost :: rat
  cd_budget_daily :: "rat option"
  cd_budget_total :: "rat option"
  cd_spent_today :: rat
  cd_spent_total :: rat
  cd_freq_cap_daily :: "int option"
  cd_freq_cap_hourly :: "int option"
  cd_is_house_ad :: bool
  cd_page_targeting :: json
  cd_target_domains :: json
  cd_creatives :: "creative_data list"
  cd_targeting_rules :: "targeting_rule list"

record ad_candidate =
  cand_campaign_id :: int
  cand_creative_id :: int
  cand_advertiser_id :: int
  cand_bid :: rat
  cand_bid_type :: int
  cand_priority_boost :: rat
  cand_title :: "string option"
  cand_description :: "string option"
  cand_image_url :: "string option"
  cand_video_url :: "string option"
  cand_landing_url :: "string option"
  cand_creative_type :: int
  cand_width :: "int option"
  cand_height :: "int option"
  cand_is_house_ad :: bool

record user_context =
  age :: "int option"
  gender :: "string option"
  country :: "string option"
  city :: "string option"
  device_model :: "string option"
  os :: "string option"
  interests :: "string list"
  app_categories :: "string list"
  page_url :: "string option"

text \<open>The truth value of an optional string: there and not empty.\<close>

definition present :: "string option \<Rightarrow> bool" where
  "present u = (case u of None \<Rightarrow> False | Some s \<Rightarrow> s \<noteq> [])"

section \<open>The cache and counter store\<close>

text \<open>
  The keys, built by \<^verbatim>\<open>CacheKeys\<close>: the hourly statistics of a campaign, the daily
  and hourly frequency counters of a user and a campaign, and the snapshot of the
  active campaigns. Hours and dates are the strings that \<^verbatim>\<open>current_hour()\<close> and
  \<^verbatim>\<open>current_date()\<close> return.
\<close>

datatype cache_key =
    StatHourly int string
  | FreqDaily string int string
  | FreqHourly string int string
  | ActiveAds

text \<open>
  A string value of the store is either what \<^verbatim>\<open>json_dumps\<close> wrote for a snapshot,
  which \<^verbatim>\<open>json_loads\<close> reads back, or something \<^verbatim>\<open>json_loads\<close> raises on.
\<close>

datatype cached = Encoded "campaign_data list" | Undecodable

text \<open>
  The store: hash fields (\<^verbatim>\<open>hincrby\<close>), plain counters (\<^verbatim>\<open>incr\<close>), string
  values (\<^verbatim>\<open>get\<close>, \<^verbatim>\<open>set\<close>) and the expiry of a key in seconds (\<^verbatim>\<open>expire\<close>,
  \<^verbatim>\<open>set\<close> with \<^verbatim>\<open>ttl\<close>). A counter that was never written reads 0, as both
  increments take it.
\<close>

record kv_store =
  hash_field :: "cache_key \<Rightarrow> string \<Rightarrow> int"
  counter :: "cache_key \<Rightarrow> int"
  str_value :: "cache_key \<Rightarrow> cached option"
  expiry :: "cache_key \<Rightarrow> nat option"

definition hincrby :: "kv_store \<Rightarrow> cache_key \<Rightarrow> string \<Rightarrow> int \<Rightarrow> kv_store" where
  "hincrby r k f n = r\<lparr>hash_field := (hash_field r)(k := (hash_field r k)(f := hash_field r k f + n))\<rparr>"

definition incr :: "kv_store \<Rightarrow> cache_key \<Rightarrow> kv_store" where
  "incr r k = r\<lparr>counter := (counter r)(k := counter r k + 1)\<rparr>"

definition expire :: "kv_store \<Rightarrow> cache_key \<Rightarrow> nat \<Rightarrow> kv_store" where
  "expire r k t = r\<lparr>expiry := (expiry r)(k := Some t)\<rparr>"

definition set_ttl :: "kv_store \<Rightarrow> cache_key \<Rightarrow> cached \<Rightarrow> nat \<Rightarrow> kv_store" where
  "set_ttl r k v t = r\<lparr>str_value := (str_value r)(k := Some v), expiry := (expiry r)(k := Some t)\<rparr>"

section \<open>The event ledger: \<^verbatim>\<open>liteads/ad_server/services/event_service.py\<close>\<close>

text \<open>
  What one call of \<^verbatim>\<open>track_event\<close> changes: the campaign table (a row by its
  primary key) and the event table behind the session, and the counter store.
\<close>

record ledger =
  campaigns :: "int \<Rightarrow> campaign option"
  events :: "ad_event list"
  store :: kv_store

text \<open>
  What the call reads from outside: the clock, and whether its collaborators answer.
  \<^verbatim>\<open>flush_ok\<close> says whether \<^verbatim>\<open>session.flush()\<close> writes the pending event (with the
  campaign's new spend, the same unit of work) or raises; \<^verbatim>\<open>store_up\<close> says whether
  the counter store answers or every command to it raises. The campaign lookup is
  taken to answer.
\<close>

record env =
  now :: int
  current_hour :: string
  current_date :: string
  flush_ok :: "ad_event \<Rightarrow> bool"
  store_up :: bool



subsection \<open>Parsing the identifiers\<close>

text \<open>\<^verbatim>\<open>return int(a), int(b)\<close> inside the \<^verbatim>\<open>try\<close>: a ValueError of either
  conversion gives \<^verbatim>\<open>(None, None)\<close>.\<close>

definition int_pair :: "string \<Rightarrow> string \<Rightarrow> int option \<times> int option" where
  "int_pair a b =
     (case py_int a of
        None \<Rightarrow> (None, None)
      | Some x \<Rightarrow> (case py_int b of None \<Rightarrow> (None, None) | Some y \<Rightarrow> (Some x, Some y)))"

definition parse_ad_id :: "string \<Rightarrow> int option \<times> int option" where
  "parse_ad_id ad_id =
     (let parts = split CHR ''_'' ad_id in
      if length parts \<ge> 3 \<and> parts ! 0 = ''ad'' then int_pair (parts ! 1) (parts ! 2)
      else if length parts \<ge> 2 then int_pair (parts ! 0) (parts ! 1)
      else (case py_int ad_id of None \<Rightarrow> (None, None) | Some c \<Rightarrow> (Some c, None)))"

definition event_aliases :: "(string \<times> EventType) list" where
  "event_aliases =
     [(''impression'', IMPRESSION), (''click'', CLICK), (''conversion'', CONVERSION),
      (''imp'', IMPRESSION), (''clk'', CLICK), (''conv'', CONVERSION),
      (''v'', IMPRESSION), (''c'', CLICK), (''x'', CONVERSION)]"

definition get_event_type :: "string \<Rightarrow> EventType option" where
  "get_event_type t = map_of event_aliases (lower t)"

subsection \<open>Cost and spend\<close>

text \<open>\<^verbatim>\<open>x or Decimal("0")\<close>: a zero amount reads as zero.\<close>

definition or_zero :: "rat \<Rightarrow> rat" where
  "or_zero x = (if x \<noteq> 0 then x else 0)"

text \<open>The cost by bid type and event type, after the lookup and house-ad guards.\<close>

definition bid_cost :: "campaign \<Rightarrow> EventType \<Rightarrow> rat" where
  "bid_cost c et =
     (if bid_type c = CPM \<or> bid_type c = OCPM then
        (if et = IMPRESSION then bid_amount c / 1000 else 0)
      else if bid_type c = CPC then
        (if et = CLICK then bid_amount c else 0)
      else if bid_type c = CPA then
        (if et = CONVERSION then bid_amount c else 0)
      else 0)"

text \<open>\<^verbatim>\<open>_calculate_cost\<close> returns the cost and leaves the campaign's new spend in
  the session; the model returns the cost and the campaign table.\<close>

definition calculate_cost ::
  "(int \<Rightarrow> campaign option) \<Rightarrow> EventType \<Rightarrow> int option \<Rightarrow> rat \<times> (int \<Rightarrow> campaign option)" where
  "calculate_cost tbl et cid =
     (case cid of
        None \<Rightarrow> (0, tbl)
      | Some i \<Rightarrow>
          (case tbl i of
             None \<Rightarrow> (0, tbl)
           | Some c \<Rightarrow>
               if is_house_ad c then (0, tbl)
               else
                 (let cost = bid_cost c et in
                  if cost > 0 then
                    (cost, tbl(i \<mapsto> c\<lparr>spent_today := or_zero (spent_today c) + cost,
                                        spent_total := or_zero (spent_total c) + cost\<rparr>))
                  else (cost, tbl))))"

subsection \<open>Counters\<close>

text \<open>Both updates return None when a command to the counter store raises.\<close>

definition stat_field :: "EventType \<Rightarrow> string" where
  "stat_field et =
     (case et of IMPRESSION \<Rightarrow> ''impressions'' | CLICK \<Rightarrow> ''clicks'' | CONVERSION \<Rightarrow> ''conversions'')"

definition update_stats :: "env \<Rightarrow> kv_store \<Rightarrow> int option \<Rightarrow> EventType \<Rightarrow> kv_store option" where
  "update_stats e r cid et =
     (case cid of
        None \<Rightarrow> Some r
      | Some i \<Rightarrow>
          if \<not> store_up e then None
          else
            (let key = StatHourly i (current_hour e)
             in Some (expire (hincrby r key (stat_field et) 1) key (48 * 3600))))"

definition update_frequency :: "env \<Rightarrow> kv_store \<Rightarrow> string \<Rightarrow> int option \<Rightarrow> kv_store option" where
  "update_frequency e r uid cid =
     (case cid of
        None \<Rightarrow> Some r
      | Some i \<Rightarrow>
          if \<not> store_up e then None
          else
            (let daily_key = FreqDaily uid i (current_date e);
                 r1 = expire (incr r daily_key) daily_key (24 * 3600);
                 hourly_key = FreqHourly uid i (current_hour e)
             in Some (expire (incr r1 hourly_key) hourly_key 3600)))"

subsection \<open>Tracking an event\<close>

text \<open>
  \<^verbatim>\<open>datetime.fromtimestamp(timestamp, tz=timezone.utc)\<close> raises outside the years 1 to
  9999; a timestamp that is None or 0 is replaced by the clock.
\<close>

definition timestamp_ok :: "int \<Rightarrow> bool" where
  "timestamp_ok t = (- 62135596800 \<le> t \<and> t \<le> 253402300799)"

definition event_time_of :: "env \<Rightarrow> int option \<Rightarrow> int option" where
  "event_time_of e ts =
     (case ts of
        None \<Rightarrow> Some (now e)
      | Some t \<Rightarrow> if t \<noteq> 0 then (if timestamp_ok t then Some t else None) else Some (now e))"

text \<open>\<^verbatim>\<open>if event_type_enum == EventType.IMPRESSION and user_id: await
  self._update_frequency(user_id, campaign_id)\<close>.\<close>

definition frequency_step ::
  "env \<Rightarrow> kv_store \<Rightarrow> EventType \<Rightarrow> string option \<Rightarrow> int option \<Rightarrow> kv_store option" where
  "frequency_step e r et uid cid =
     (case uid of
        None \<Rightarrow> Some r
      | Some u \<Rightarrow> if et = IMPRESSION \<and> u \<noteq> [] then update_frequency e r u cid else Some r)"

text \<open>
  \<^verbatim>\<open>track_event\<close>: the result and the ledger after the call. Every exception inside
  is caught by the function's own \<^verbatim>\<open>except Exception\<close> and turned into False. A
  flush that raises writes nothing; a counter store that raises leaves the rows that
  were flushed before.
\<close>

definition track_event ::
  "env \<Rightarrow> ledger \<Rightarrow> string \<Rightarrow> string \<Rightarrow> string \<Rightarrow> string option \<Rightarrow> int option \<Rightarrow> bool \<times> ledger" where
  "track_event e s rid ad_id etype uid ts =
     (let (cid, crid) = parse_ad_id ad_id in
      case get_event_type etype of
        None \<Rightarrow> (False, s)
      | Some et \<Rightarrow>
          (case event_time_of e ts of
             None \<Rightarrow> (False, s)
           | Some tm \<Rightarrow>
               (let (c, tbl) = calculate_cost (campaigns s) et cid;
                    ev = \<lparr>request_id = rid, campaign_id = cid, creative_id = crid,
                          event_type = et, event_time = tm, user_id = uid, cost = c\<rparr>
                in if \<not> flush_ok e ev then (False, s)
                   else
                     (let s1 = s\<lparr>campaigns := tbl, events := events s @ [ev]\<rparr>
                      in case update_stats e (store s1) cid et of
                           None \<Rightarrow> (False, s1)
                         | Some r1 \<Rightarrow>
                             (case frequency_step e r1 et uid cid of
                                None \<Rightarrow> (False, s1\<lparr>store := r1\<rparr>)
                              | Some r2 \<Rightarrow> (True, s1\<lparr>store := r2\<rparr>))))))"

text \<open>The GET endpoint of \<^verbatim>\<open>liteads/ad_server/routers/event.py\<close>, for the tracking
  pixels: \<^verbatim>\<open>t\<close> is the event type, \<^verbatim>\<open>r\<close> the request and \<^verbatim>\<open>i\<close> the ad.\<close>

definition track_event_get :: "env \<Rightarrow> ledger \<Rightarrow> string \<Rightarrow> string \<Rightarrow> string \<Rightarrow> bool \<times> ledger" where
  "track_event_get e s t r i = track_event e s r i t None (Some (now e))"

section \<open>Retrieval by targeting: \<^verbatim>\<open>liteads/rec_engine/retrieval/targeting.py\<close>\<close>

subsection \<open>Python values\<close>

text \<open>An exception that leaves a function of this module is a value: no function
  here catches a TypeError or an AttributeError of its own making.\<close>

datatype py_error = TypeError | AttributeError

definition bind :: "py_error + 'a \<Rightarrow> ('a \<Rightarrow> py_error + 'b) \<Rightarrow> py_error + 'b" where
  "bind m f = (case m of Inl e \<Rightarrow> Inl e | Inr x \<Rightarrow> f x)"

text \<open>The truth value of a JSON value, as \<^verbatim>\<open>if x\<close> and \<^verbatim>\<open>not x\<close> take it.\<close>

fun truthy :: "json \<Rightarrow> bool" where
  "truthy JNull = False"
| "truthy (JBool b) = b"
| "truthy (JNum r) = (r \<noteq> 0)"
| "truthy (JStr s) = (s \<noteq> [])"
| "truthy (JArr xs) = (xs \<noteq> [])"
| "truthy (JObj kvs) = (kvs \<noteq> [])"

text \<open>\<^verbatim>\<open>v.get(key, default)\<close>: only a dict has the method.\<close>

fun dict_get :: "json \<Rightarrow> string \<Rightarrow> json \<Rightarrow> py_error + json" where
  "dict_get (JObj kvs) k d = Inr (case map_of kvs k of None \<Rightarrow> d | Some v \<Rightarrow> v)"
| "dict_get v k d = Inl AttributeError"

text \<open>\<^verbatim>\<open>for x in v\<close>: the elements of a list, the characters of a string, the keys
  of a dict; nothing else can be iterated.\<close>

fun iter :: "json \<Rightarrow> py_error + json list" where
  "iter (JArr xs) = Inr xs"
| "iter (JStr s) = Inr (map (\<lambda>c. JStr [c]) s)"
| "iter (JObj kvs) = Inr (map (\<lambda>kv. JStr (fst kv)) kvs)"
| "iter v = Inl TypeError"

text \<open>\<^verbatim>\<open>[x.lower() for x in xs]\<close>, and the same with \<^verbatim>\<open>upper\<close>: only a string
  has the method.\<close>

fun each_str :: "(string \<Rightarrow> string) \<Rightarrow> json list \<Rightarrow> py_error + string list" where
  "each_str f [] = Inr []"
| "each_str f (JStr s # xs) = bind (each_str f xs) (\<lambda>ys. Inr (f s # ys))"
| "each_str f (v # xs) = Inl AttributeError"

definition strs_of :: "(string \<Rightarrow> string) \<Rightarrow> json \<Rightarrow> py_error + string list" where
  "strs_of f v = bind (iter v) (each_str f)"

text \<open>\<^verbatim>\<open>x in v\<close> for a string \<^verbatim>\<open>x\<close>: an element of a list, a substring of a
  string, a key of a dict.\<close>

fun contains :: "json \<Rightarrow> string \<Rightarrow> py_error + bool" where
  "contains (JArr xs) x = Inr (JStr x \<in> set xs)"
| "contains (JStr s) x = Inr (sublist x s)"
| "contains (JObj kvs) x = Inr (x \<in> fst ` set kvs)"
| "contains v x = Inl TypeError"

text \<open>The number a value stands for in \<^verbatim>\<open>\<le>\<close> against an integer: a number, or a
  truth value (which Python takes as 0 or 1).\<close>

fun as_number :: "json \<Rightarrow> rat option" where
  "as_number (JNum r) = Some r"
| "as_number (JBool b) = Some (if b then 1 else 0)"
| "as_number v = None"

text \<open>\<^verbatim>\<open>xs[:n]\<close>: a negative \<^verbatim>\<open>n\<close> counts from the end.\<close>

definition slice_to :: "int \<Rightarrow> 'a list \<Rightarrow> 'a list" where
  "slice_to n xs = (if n \<ge> 0 then take (nat n) xs else take (length xs - nat (- n)) xs)"

text \<open>
  Library functions the module calls and this development does not define: the glob
  match \<^verbatim>\<open>fnmatch.fnmatch(name, pattern)\<close>, the JSON reader \<^verbatim>\<open>json_loads\<close> (None
  when it raises) and the check \<^verbatim>\<open>urlsplit\<close> makes of a bracketed host.
\<close>

record lib =
  fnmatch :: "string \<Rightarrow> string \<Rightarrow> bool"
  json_loads :: "string \<Rightarrow> json option"
  bracketed_host_ok :: "string \<Rightarrow> bool"

subsection \<open>The rule matcher\<close>

definition match_age :: "json \<Rightarrow> user_context \<Rightarrow> py_error + bool" where
  "match_age rv ctx =
     (case age ctx of
        None \<Rightarrow> Inr True
      | Some a \<Rightarrow>
          bind (dict_get rv ''min'' (JNum 0)) (\<lambda>min_age.
          bind (dict_get rv ''max'' (JNum 999)) (\<lambda>max_age.
            case as_number min_age of
              None \<Rightarrow> Inl TypeError
            | Some lo \<Rightarrow>
                if \<not> lo \<le> of_int a then Inr False
                else (case as_number max_age of
                        None \<Rightarrow> Inl TypeError
                      | Some hi \<Rightarrow> Inr (of_int a \<le> hi)))))"

definition match_gender :: "json \<Rightarrow> user_context \<Rightarrow> py_error + bool" where
  "match_gender rv ctx =
     (case gender ctx of
        None \<Rightarrow> Inr True
      | Some g \<Rightarrow>
          bind (dict_get rv ''values'' (JArr [])) (\<lambda>values.
          bind (strs_of lower values) (\<lambda>vs. Inr (lower g \<in> set vs))))"

text \<open>One of the two checks of a geo rule: \<^verbatim>\<open>if allowed and have: if f(have) not
  in [f(c) for c in allowed]: return False\<close>. The result says whether the check lets the
  user through.\<close>

definition geo_check :: "(string \<Rightarrow> string) \<Rightarrow> json \<Rightarrow> string option \<Rightarrow> py_error + bool" where
  "geo_check f allowed have =
     (case have of
        None \<Rightarrow> Inr True
      | Some h \<Rightarrow>
          if truthy allowed \<and> h \<noteq> [] then bind (strs_of f allowed) (\<lambda>vs. Inr (f h \<in> set vs))
          else Inr True)"

definition match_geo :: "json \<Rightarrow> user_context \<Rightarrow> py_error + bool" where
  "match_geo rv ctx =
     bind (dict_get rv ''countries'' (JArr [])) (\<lambda>countries.
     bind (dict_get rv ''cities'' (JArr [])) (\<lambda>cities.
     bind (geo_check upper countries (country ctx)) (\<lambda>ok.
       if \<not> ok then Inr False else geo_check lower cities (city ctx))))"

definition device_type_of :: "string \<Rightarrow> string" where
  "device_type_of model =
     (if sublist ''tablet'' (lower model) \<or> sublist ''pad'' (lower model) then ''tablet''
      else ''phone'')"

definition match_device :: "json \<Rightarrow> user_context \<Rightarrow> py_error + bool" where
  "match_device rv ctx =
     bind (dict_get rv ''types'' (JArr [])) (\<lambda>device_types.
       case device_model ctx of
         None \<Rightarrow> Inr True
       | Some m \<Rightarrow>
           if m \<noteq> [] \<and> truthy device_types then contains device_types (device_type_of m)
           else Inr True)"

definition match_os :: "json \<Rightarrow> user_context \<Rightarrow> py_error + bool" where
  "match_os rv ctx =
     bind (dict_get rv ''values'' (JArr [])) (\<lambda>os_values.
       case os ctx of
         None \<Rightarrow> Inr True
       | Some s \<Rightarrow>
           if truthy os_values \<and> s \<noteq> [] then
             bind (strs_of lower os_values) (\<lambda>vs. Inr (lower s \<in> set vs))
           else Inr True)"

text \<open>The interest and the app-category rule: some target value is among the user's,
  both sides in lower case.\<close>

definition match_any :: "json \<Rightarrow> string list \<Rightarrow> py_error + bool" where
  "match_any rv have =
     bind (dict_get rv ''values'' (JArr [])) (\<lambda>wanted.
       if truthy wanted \<and> have \<noteq> [] then
         bind (strs_of lower wanted) (\<lambda>ws. Inr (list_ex (\<lambda>w. w \<in> set (map lower have)) ws))
       else Inr True)"

definition match_rule :: "string \<Rightarrow> json \<Rightarrow> user_context \<Rightarrow> py_error + bool" where
  "match_rule rt rv ctx =
     (if rt = ''age'' then match_age rv ctx
      else if rt = ''gender'' then match_gender rv ctx
      else if rt = ''geo'' then match_geo rv ctx
      else if rt = ''device'' then match_device rv ctx
      else if rt = ''os'' then match_os rv ctx
      else if rt = ''interest'' then match_any rv (interests ctx)
      else if rt = ''app_category'' then match_any rv (app_categories ctx)
      else Inr True)"

fun match_rules :: "targeting_rule list \<Rightarrow> user_context \<Rightarrow> py_error + bool" where
  "match_rules [] ctx = Inr True"
| "match_rules (r # rs) ctx =
     bind (match_rule (rule_type r) (rule_value r) ctx) (\<lambda>matched.
       if is_include r \<and> \<not> matched then Inr False
       else if \<not> is_include r \<and> matched then Inr False
       else match_rules rs ctx)"

definition match_targeting :: "campaign_data \<Rightarrow> user_context \<Rightarrow> py_error + bool" where
  "match_targeting cd ctx =
     (if cd_targeting_rules cd = [] then Inr True else match_rules (cd_targeting_rules cd) ctx)"

subsection \<open>Page and domain targeting\<close>

text \<open>A stored targeting value that is a string is JSON text and is read first; the
  result is None when the reader raises.\<close>

definition decoded :: "lib \<Rightarrow> json \<Rightarrow> json option" where
  "decoded L v = (case v of JStr s \<Rightarrow> json_loads L s | _ \<Rightarrow> Some v)"

text \<open>\<^verbatim>\<open>for pattern in patterns: if fnmatch.fnmatch(page_url, pattern): ...\<close>: whether
  some pattern matches. \<^verbatim>\<open>fnmatch\<close> raises a TypeError on a pattern that is not a
  string.\<close>

fun any_pattern :: "lib \<Rightarrow> string \<Rightarrow> json list \<Rightarrow> py_error + bool" where
  "any_pattern L url [] = Inr False"
| "any_pattern L url (JStr p # ps) = (if fnmatch L url p then Inr True else any_pattern L url ps)"
| "any_pattern L url (v # ps) = Inl TypeError"

definition match_page_targeting :: "lib \<Rightarrow> campaign_data \<Rightarrow> string option \<Rightarrow> py_error + bool" where
  "match_page_targeting L cd url =
     (if \<not> truthy (cd_page_targeting cd) then Inr True
      else case url of
        None \<Rightarrow> Inr True
      | Some u \<Rightarrow>
          if u = [] then Inr True
          else (case decoded L (cd_page_targeting cd) of
                  None \<Rightarrow> Inr True
                | Some (JObj kvs) \<Rightarrow>
                    if kvs = [] then Inr True
                    else
                      bind (dict_get (JObj kvs) ''include'' (JArr [])) (\<lambda>include_patterns.
                      bind (dict_get (JObj kvs) ''exclude'' (JArr [])) (\<lambda>exclude_patterns.
                      bind (iter exclude_patterns) (\<lambda>excl.
                      bind (any_pattern L u excl) (\<lambda>excluded.
                        if excluded then Inr False
                        else if truthy include_patterns then
                          bind (iter include_patterns) (any_pattern L u)
                        else Inr True))))
                | Some v \<Rightarrow> Inr True))"

text \<open>
  \<^verbatim>\<open>urlparse(url).netloc\<close>, after \<^verbatim>\<open>urllib.parse.urlsplit\<close>: leading control
  characters and blanks are dropped, tabs and line breaks are removed, a scheme
  (letters, digits, \<^verbatim>\<open>+\<close>, \<^verbatim>\<open>-\<close>, \<^verbatim>\<open>.\<close>, starting with a letter) and its colon are
  cut off, and what follows \<^verbatim>\<open>//\<close> up to the first \<^verbatim>\<open>/\<close>, \<^verbatim>\<open>?\<close> or \<^verbatim>\<open>#\<close> is the
  network location. None is the ValueError of a bracket without its partner or of a
  bracketed host the library refuses.
\<close>

definition is_scheme_char :: "char \<Rightarrow> bool" where
  "is_scheme_char c = (is_lower c \<or> is_upper c \<or> is_digit c \<or> c \<in> set ''+-.'')"

definition drop_scheme :: "string \<Rightarrow> string" where
  "drop_scheme url =
     (let pre = takeWhile (\<lambda>c. c \<noteq> CHR '':'') url in
      if length pre < length url \<and> pre \<noteq> [] \<and> (is_lower (hd url) \<or> is_upper (hd url))
         \<and> list_all is_scheme_char pre
      then drop (length pre + 1) url
      else url)"

definition netloc :: "lib \<Rightarrow> string \<Rightarrow> string option" where
  "netloc L url =
     (let url1 = dropWhile (\<lambda>c. ord c \<le> 32) url;
          url2 = filter (\<lambda>c. ord c \<noteq> 9 \<and> ord c \<noteq> 10 \<and> ord c \<noteq> 13) url1;
          url3 = drop_scheme url2
      in if take 2 url3 = ''//'' then
           (let loc = takeWhile (\<lambda>c. c \<notin> set ''/?#'') (drop 2 url3);
                opening = CHR ''['' \<in> set loc;
                closing = CHR '']'' \<in> set loc
            in if opening \<noteq> closing then None
               else if opening then
                 (if bracketed_host_ok L
                       (takeWhile (\<lambda>c. c \<noteq> CHR '']'') (drop 1 (dropWhile (\<lambda>c. c \<noteq> CHR ''['') loc)))
                  then Some loc else None)
               else Some loc)
         else Some [])"

definition strip_www :: "string \<Rightarrow> string" where
  "strip_www h = (if prefix ''www.'' h then drop 4 h else h)"

text \<open>\<^verbatim>\<open>_extract_domain\<close>: None is the \<^verbatim>\<open>None\<close> of an empty URL or of a URL the
  library raises on.\<close>

definition extract_domain :: "lib \<Rightarrow> string \<Rightarrow> string option" where
  "extract_domain L url =
     (if url = [] then None
      else case netloc L url of
        None \<Rightarrow> None
      | Some loc \<Rightarrow>
          (let host = strip_www (lower loc);
               parts = split CHR ''.'' host
           in if length parts \<ge> 2 then Some (join ''.'' (drop (length parts - 2) parts))
              else Some host))"

text \<open>The variable \<^verbatim>\<open>target_clean\<close> of the loop over the target domains.\<close>

definition clean_target :: "string \<Rightarrow> string" where
  "clean_target target = strip_www (strip (lower target))"

text \<open>The loop over the target domains; an entry that is not a string has no
  \<^verbatim>\<open>lower\<close>.\<close>

fun domain_loop :: "string \<Rightarrow> json list \<Rightarrow> py_error + bool" where
  "domain_loop page_domain [] = Inr False"
| "domain_loop page_domain (JStr target # ts) =
     (if page_domain = clean_target target then Inr True
      else if suffix (''.'' @ clean_target target) page_domain then Inr True
      else domain_loop page_domain ts)"
| "domain_loop page_domain (v # ts) = Inl AttributeError"

definition match_domain_targeting :: "lib \<Rightarrow> json \<Rightarrow> string option \<Rightarrow> py_error + bool" where
  "match_domain_targeting L domains url =
     (if \<not> truthy domains then Inr True
      else case url of
        None \<Rightarrow> Inr True
      | Some u \<Rightarrow>
          if u = [] then Inr True
          else (case decoded L domains of
                  None \<Rightarrow> Inr True
                | Some (JArr targets) \<Rightarrow>
                    if targets = [] then Inr True
                    else (case extract_domain L u of
                            None \<Rightarrow> Inr True
                          | Some page_domain \<Rightarrow>
                              if page_domain = [] then Inr True
                              else domain_loop page_domain targets)
                | Some v \<Rightarrow> Inr True))"

subsection \<open>Slot dimensions\<close>

text \<open>
  \<^verbatim>\<open>re.compile(r"(\d+)x(\d+)").search(slot_id)\<close>: the leftmost run of digits that
  is followed by \<^verbatim>\<open>x\<close> and a digit; both groups are greedy. A run that is not
  followed so cannot match from any of its later digits either, so the search goes on
  behind it.
\<close>

function parse_slot_dimensions :: "string \<Rightarrow> (int \<times> int) option" where
  "parse_slot_dimensions s =
     (case dropWhile (\<lambda>c. \<not> is_digit c) s of
        [] \<Rightarrow> None
      | d # ds \<Rightarrow>
          (let run = takeWhile is_digit (d # ds);
               rest = dropWhile is_digit (d # ds)
           in case rest of
                [] \<Rightarrow> None
              | x # after \<Rightarrow>
                  if x = CHR ''x'' \<and> takeWhile is_digit after \<noteq> []
                  then Some (digits_val run, digits_val (takeWhile is_digit after))
                  else parse_slot_dimensions rest))"
  by pat_completeness auto

termination
proof (relation "measure length")
  show "wf (measure length)" by simp
next
  fix s :: string and d ds run rest x after
  assume found: "dropWhile (\<lambda>c. \<not> is_digit c) s = d # ds"
    and rest: "rest = dropWhile is_digit (d # ds)"
  have "is_digit d"
    using found hd_dropWhile [of "\<lambda>c. \<not> is_digit c" s] by auto
  then have "length rest \<le> length ds"
    using rest length_dropWhile_le [of is_digit ds] by simp
  moreover have "length (d # ds) \<le> length s"
    using found length_dropWhile_le [of "\<lambda>c. \<not> is_digit c" s] by simp
  ultimately show "(rest, s) \<in> measure length" by simp
qed

declare parse_slot_dimensions.simps [simp del]

definition creative_matches_slot :: "creative_data \<Rightarrow> (int \<times> int) option \<Rightarrow> bool" where
  "creative_matches_slot cr slot_dimensions =
     (case slot_dimensions of
        None \<Rightarrow> True
      | Some (slot_width, slot_height) \<Rightarrow>
          (case crd_width cr of
             None \<Rightarrow> True
           | Some w \<Rightarrow>
               (case crd_height cr of
                  None \<Rightarrow> True
                | Some h \<Rightarrow> w = slot_width \<and> h = slot_height)))"

subsection \<open>The snapshot of the active campaigns\<close>

definition creative_dict :: "creative \<Rightarrow> creative_data" where
  "creative_dict cr =
     \<lparr>crd_id = cr_id cr, crd_title = cr_title cr, crd_description = cr_description cr,
      crd_image_url = cr_image_url cr, crd_video_url = cr_video_url cr,
      crd_landing_url = cr_landing_url cr, crd_creative_type = cr_creative_type cr,
      crd_width = cr_width cr, crd_height = cr_height cr\<rparr>"

text \<open>\<^verbatim>\<open>float(x) if x else None\<close>, and the same with the default 1.0.\<close>

definition nonzero :: "rat option \<Rightarrow> rat option" where
  "nonzero x = (case x of None \<Rightarrow> None | Some v \<Rightarrow> if v \<noteq> 0 then Some v else None)"

definition campaign_dict :: "campaign \<Rightarrow> campaign_data" where
  "campaign_dict c =
     \<lparr>cd_id = c_id c, cd_advertiser_id = c_advertiser_id c, cd_name = c_name c,
      cd_bid_type = bid_type c, cd_bid_amount = bid_amount c,
      cd_priority_boost = (case nonzero (priority_boost c) of None \<Rightarrow> 1 | Some v \<Rightarrow> v),
      cd_budget_daily = nonzero (budget_daily c),
      cd_budget_total = nonzero (budget_total c),
      cd_spent_today = spent_today c, cd_spent_total = spent_total c,
      cd_freq_cap_daily = freq_cap_daily c, cd_freq_cap_hourly = freq_cap_hourly c,
      cd_is_house_ad = is_house_ad c,
      cd_page_targeting = page_targeting c, cd_target_domains = target_domains c,
      cd_creatives = map creative_dict (filter (\<lambda>cr. cr_status cr = ACTIVE) (creatives c)),
      cd_targeting_rules = targeting_rules c\<rparr>"

text \<open>The loop over the rows the query returned.\<close>

fun campaign_list :: "campaign list \<Rightarrow> campaign_data list" where
  "campaign_list [] = []"
| "campaign_list (c # cs) =
     (if \<not> is_active c then campaign_list cs
      else if cd_creatives (campaign_dict c) \<noteq> [] then campaign_dict c # campaign_list cs
      else campaign_list cs)"

definition cache_ttl :: nat where
  "cache_ttl = 300"

text \<open>
  \<^verbatim>\<open>select(Campaign).where(Campaign.status == Status.ACTIVE).limit(1000)\<close> over the
  campaign table, whose rows come in the order the database returns them.
\<close>

definition query_active :: "campaign list \<Rightarrow> campaign list" where
  "query_active tbl = take 1000 (filter (\<lambda>c. c_status c = ACTIVE) tbl)"

text \<open>\<^verbatim>\<open>_get_active_campaigns\<close>: the snapshot and the store after the call. Both
  collaborators are taken to answer.\<close>

definition get_active_campaigns :: "campaign list \<Rightarrow> kv_store \<Rightarrow> campaign_data list \<times> kv_store" where
  "get_active_campaigns tbl r =
     (case str_value r ActiveAds of
        Some (Encoded snapshot) \<Rightarrow> (snapshot, r)
      | _ \<Rightarrow>
          (let built = campaign_list (query_active tbl)
           in if built \<noteq> [] then (built, set_ttl r ActiveAds (Encoded built) cache_ttl)
              else (built, r)))"

subsection \<open>Retrieval\<close>

definition candidate :: "campaign_data \<Rightarrow> creative_data \<Rightarrow> ad_candidate" where
  "candidate cd cr =
     \<lparr>cand_campaign_id = cd_id cd, cand_creative_id = crd_id cr,
      cand_advertiser_id = cd_advertiser_id cd, cand_bid = cd_bid_amount cd,
      cand_bid_type = cd_bid_type cd, cand_priority_boost = cd_priority_boost cd,
      cand_title = crd_title cr, cand_description = crd_description cr,
      cand_image_url = crd_image_url cr, cand_video_url = crd_video_url cr,
      cand_landing_url = crd_landing_url cr, cand_creative_type = crd_creative_type cr,
      cand_width = crd_width cr, cand_height = crd_height cr,
      cand_is_house_ad = cd_is_house_ad cd\<rparr>"

text \<open>The condition of both \<^verbatim>\<open>break\<close>s.\<close>

definition both_full :: "int \<Rightarrow> ad_candidate list \<times> ad_candidate list \<Rightarrow> bool" where
  "both_full limit b = (int (length (fst b)) \<ge> limit \<and> int (length (snd b)) \<ge> limit)"

text \<open>The inner loop over the creatives of one campaign; the pair is (paid, house).\<close>

fun creatives_loop ::
  "int \<Rightarrow> (int \<times> int) option \<Rightarrow> campaign_data \<Rightarrow> creative_data list \<Rightarrow>
   ad_candidate list \<times> ad_candidate list \<Rightarrow> ad_candidate list \<times> ad_candidate list" where
  "creatives_loop limit dims cd [] b = b"
| "creatives_loop limit dims cd (cr # crs) b =
     (if \<not> creative_matches_slot cr dims then creatives_loop limit dims cd crs b
      else
        (let b' = (if cd_is_house_ad cd then (fst b, snd b @ [candidate cd cr])
                   else (fst b @ [candidate cd cr], snd b))
         in if both_full limit b' then b' else creatives_loop limit dims cd crs b'))"

text \<open>The three targeting checks of the outer loop, in the order the loop makes them;
  a later check is not made when an earlier one rejects.\<close>

definition eligible ::
  "lib \<Rightarrow> user_context \<Rightarrow> string option \<Rightarrow> campaign_data \<Rightarrow> py_error + bool" where
  "eligible L ctx url cd =
     bind (match_targeting cd ctx) (\<lambda>t.
       if \<not> t then Inr False
       else bind (match_page_targeting L cd url) (\<lambda>p.
         if \<not> p then Inr False
         else match_domain_targeting L (cd_target_domains cd) url))"

fun campaigns_loop ::
  "lib \<Rightarrow> user_context \<Rightarrow> string option \<Rightarrow> int \<Rightarrow> (int \<times> int) option \<Rightarrow> campaign_data list \<Rightarrow>
   ad_candidate list \<times> ad_candidate list \<Rightarrow> py_error + ad_candidate list \<times> ad_candidate list" where
  "campaigns_loop L ctx url limit dims [] b = Inr b"
| "campaigns_loop L ctx url limit dims (cd # cds) b =
     bind (eligible L ctx url cd) (\<lambda>ok.
       if \<not> ok then campaigns_loop L ctx url limit dims cds b
       else
         (let b' = creatives_loop limit dims cd (cd_creatives cd) b
          in if both_full limit b' then Inr b' else campaigns_loop L ctx url limit dims cds b'))"

text \<open>
  \<^verbatim>\<open>retrieve\<close>: what it returns or raises, and the store after the call.
  \<^verbatim>\<open>kw_page_url\<close> is the keyword argument \<^verbatim>\<open>page_url\<close>, None when it is not given.
\<close>

definition retrieve ::
  "lib \<Rightarrow> campaign list \<Rightarrow> kv_store \<Rightarrow> user_context \<Rightarrow> string \<Rightarrow> int \<Rightarrow> string option \<Rightarrow>
   (py_error + ad_candidate list) \<times> kv_store" where
  "retrieve L tbl r ctx slot_id limit kw_page_url =
     (let (active, r') = get_active_campaigns tbl r in
      if active = [] then (Inr [], r')
      else
        (let slot_dimensions = parse_slot_dimensions slot_id;
             url = (if present kw_page_url then kw_page_url else page_url ctx)
         in (bind (campaigns_loop L ctx url limit slot_dimensions active ([], [])) (\<lambda>b.
               if fst b \<noteq> [] then Inr (slice_to limit (fst b))
               else if snd b \<noteq> [] then Inr (slice_to limit (snd b))
               else Inr []),
             r')))"

section \<open>The buckets of retrieval, without the loop\<close>

text \<open>
  What the spec calls the paid and the house bucket: the candidates of every campaign
  that passes the three targeting checks, one per creative that fits the slot, in the
  order of the snapshot; \<^verbatim>\<open>house\<close> selects the bucket. The loops of \<^verbatim>\<open>retrieve\<close>
  are compared with these lists below.
\<close>

definition slot_candidates :: "(int \<times> int) option \<Rightarrow> campaign_data \<Rightarrow> ad_candidate list" where
  "slot_candidates dims cd =
     map (candidate cd) (filter (\<lambda>cr. creative_matches_slot cr dims) (cd_creatives cd))"

definition bucket ::
  "bool \<Rightarrow> lib \<Rightarrow> user_context \<Rightarrow> string option \<Rightarrow> (int \<times> int) option \<Rightarrow> campaign_data list \<Rightarrow>
   ad_candidate list" where
  "bucket house L ctx url dims cds =
     concat (map (slot_candidates dims)
       (filter (\<lambda>cd. cd_is_house_ad cd = house \<and> eligible L ctx url cd = Inr True) cds))"

section \<open>What the frequency counters hold\<close>

text \<open>The frequency counters of the store: the value and the expiry under every daily
  and hourly frequency key, and nothing under the other keys.\<close>

definition freq_counters :: "kv_store \<Rightarrow> cache_key \<Rightarrow> (int \<times> nat option) option" where
  "freq_counters r k =
     (case k of
        FreqDaily u c d \<Rightarrow> Some (counter r k, expiry r k)
      | FreqHourly u c h \<Rightarrow> Some (counter r k, expiry r k)
      | _ \<Rightarrow> None)"

section \<open>Concrete inputs\<close>

text \<open>One active CPM campaign with a bid of 2 and one active creative of 300 by 250, a user
  of whom nothing is known, a clock, collaborators that answer, and
  an empty store: the inputs the theorems below are run on.\<close>

definition demo_creative :: creative where
  "demo_creative =
     \<lparr>cr_id = 3, cr_title = Some ''Demo'', cr_description = None, cr_image_url = None,
      cr_video_url = None, cr_landing_url = Some ''https://example.com/landing'',
      cr_creative_type = 1, cr_width = Some 300, cr_height = Some 250, cr_status = ACTIVE\<rparr>"

definition demo_campaign :: campaign where
  "demo_campaign =
     \<lparr>c_id = 5, c_advertiser_id = 1, c_name = ''demo'', c_status = ACTIVE, is_active = True,
      bid_type = CPM, bid_amount = 2, priority_boost = None, budget_daily = None,
      budget_total = None, spent_today = 0, spent_total = 0, freq_cap_daily = None,
      freq_cap_hourly = None, is_house_ad = False, page_targeting = JNull,
      target_domains = JNull, creatives = [demo_creative], targeting_rules = []\<rparr>"

definition house_campaign :: campaign where
  "house_campaign = demo_campaign\<lparr>c_id := 7, is_house_ad := True\<rparr>"

definition demo_context :: user_context where
  "demo_context =
     \<lparr>age = None, gender = None, country = None, city = None, device_model = None, os = None,
      interests = [], app_categories = [], page_url = None\<rparr>"

text \<open>Stand-ins for the library functions: a glob match by equality, a JSON reader that
  always raises, and a bracketed-host check that accepts.\<close>

definition demo_lib :: lib where
  "demo_lib = \<lparr>fnmatch = (\<lambda>name pat. name = pat), json_loads = (\<lambda>s. None),
     bracketed_host_ok = (\<lambda>h. True)\<rparr>"

definition demo_env :: env where
  "demo_env = \<lparr>now = 1700000000, current_hour = ''2023111422'', current_date = ''20231114'',
     flush_ok = (\<lambda>ev. True), store_up = True\<rparr>"


definition empty_store :: kv_store where
  "empty_store = \<lparr>hash_field = (\<lambda>k f. 0), counter = (\<lambda>k. 0), str_value = (\<lambda>k. None),
     expiry = (\<lambda>k. None)\<rparr>"

definition demo_ledger :: ledger where
  "demo_ledger = \<lparr>campaigns = Map.empty(5 \<mapsto> demo_campaign), events = [], store = empty_store\<rparr>"

section \<open>Properties of the event ledger\<close>

lemma or_zero_id [simp]: "or_zero x = x"
  by (simp add: or_zero_def)

lemma calculate_cost_table:
  assumes "calculate_cost tbl et cid = (c, tbl')"
  shows "if c > 0
         then \<exists>i row. cid = Some i \<and> tbl i = Some row \<and>
                tbl' = tbl(i \<mapsto> row\<lparr>spent_today := spent_today row + c, spent_total := spent_total row + c\<rparr>)
         else tbl' = tbl"
  using assms by (auto simp: calculate_cost_def Let_def split: option.splits if_splits)

lemma calculate_cost_None [simp]: "calculate_cost tbl et None = (0, tbl)"
  by (simp add: calculate_cost_def)

lemma update_stats_None [simp]: "update_stats e r None et = Some r"
  by (simp add: update_stats_def)

lemma update_frequency_None [simp]: "update_frequency e r u None = Some r"
  by (simp add: update_frequency_def)

lemma frequency_step_None [simp]: "frequency_step e r et uid None = Some r"
  by (simp add: frequency_step_def split: option.splits)

lemma freq_counters_update_stats:
  "update_stats e r cid et = Some r' \<Longrightarrow> freq_counters r' = freq_counters r"
  by (auto simp: update_stats_def freq_counters_def Let_def expire_def hincrby_def fun_eq_iff
      split: option.splits if_splits cache_key.splits)

lemma frequency_step_idle:
  "et \<noteq> IMPRESSION \<or> \<not> present uid \<Longrightarrow> frequency_step e r et uid cid = (Some r)"
  by (auto simp: frequency_step_def present_def split: option.splits)

lemma ord_digit_char: "d < 10 \<Longrightarrow> ord (digit_char d) = 48 + d"
  by (simp add: ord_def digit_char_def)

lemma is_digit_digit_char: "d < 10 \<Longrightarrow> is_digit (digit_char d)"
  by (simp add: is_digit_def ord_digit_char)

lemma digit_val_digit_char: "d < 10 \<Longrightarrow> digit_val (digit_char d) = int d"
  by (simp add: digit_val_def ord_digit_char)

lemma ord_underscore: "ord CHR ''_'' = 95"
  by (simp add: ord_def)

lemma ord_minus: "ord CHR ''-'' = 45"
  by (simp add: ord_def)

lemma digit_not_special:
  "is_digit c \<Longrightarrow> c \<noteq> CHR ''_'' \<and> c \<noteq> CHR ''-'' \<and> c \<noteq> CHR ''+'' \<and> \<not> is_int_space c"
  by (auto simp: is_digit_def is_int_space_def ord_def)

lemma nat_digits_all: "list_all is_digit (nat_digits n)"
  by (induction n rule: nat_digits.induct)
     (subst nat_digits.simps, simp add: is_digit_digit_char)

lemma nat_digits_nonempty: "nat_digits n \<noteq> []"
  by (subst nat_digits.simps) simp

lemma digits_ok_all: "ds \<noteq> [] \<Longrightarrow> list_all is_digit ds \<Longrightarrow> digits_ok ds"
  by (induction ds rule: digits_ok.induct) (auto dest: digit_not_special)

lemma digits_val_snoc:
  "c \<noteq> CHR ''_'' \<Longrightarrow> digits_val (ds @ [c]) = 10 * digits_val ds + digit_val c"
  by (simp add: digits_val_def)

lemma digits_val_single: "c \<noteq> CHR ''_'' \<Longrightarrow> digits_val [c] = digit_val c"
  by (simp add: digits_val_def)

lemma digits_val_nat_digits: "digits_val (nat_digits n) = int n"
proof (induction n rule: nat_digits.induct)
  case (1 n)
  show ?case
  proof (cases "n < 10")
    case True
    then show ?thesis
      using digit_not_special [OF is_digit_digit_char [of n]]
      by (subst nat_digits.simps) (simp add: digits_val_single digit_val_digit_char)
  next
    case False
    have d: "digit_char (n mod 10) \<noteq> CHR ''_''"
      using digit_not_special [OF is_digit_digit_char [of "n mod 10"]] by simp
    from False 1 have "digits_val (nat_digits (n div 10)) = int (n div 10)" by simp
    with False d show ?thesis
      by (subst nat_digits.simps) (simp add: digits_val_snoc digit_val_digit_char zdiv_int zmod_int)
  qed
qed

lemma strip_int_id:
  assumes "s \<noteq> []" and "\<not> is_int_space (hd s)" and "\<not> is_int_space (last s)"
  shows "strip_int s = s"
proof -
  from assms have a: "dropWhile is_int_space s = s" by (cases s) auto
  from assms have "rev s \<noteq> []" and "\<not> is_int_space (hd (rev s))" by (auto simp: hd_rev)
  then have "dropWhile is_int_space (rev s) = rev s" by (cases "rev s") auto
  with a show ?thesis by (simp add: strip_int_def)
qed

lemma py_int_nat_digits: "py_int (nat_digits n) = Some (int n)"
proof -
  let ?ds = "nat_digits n"
  have ne: "?ds \<noteq> []" by (rule nat_digits_nonempty)
  have all: "list_all is_digit ?ds" by (rule nat_digits_all)
  from ne all have h: "is_digit (hd ?ds)" and l: "is_digit (last ?ds)"
    by (auto simp: list_all_iff)
  have s: "strip_int ?ds = ?ds"
    using ne h l by (intro strip_int_id) (auto dest: digit_not_special)
  obtain c cs where cs: "?ds = c # cs" using ne by (cases ?ds) auto
  with h have "c \<noteq> CHR ''-''" "c \<noteq> CHR ''+''" by (auto dest: digit_not_special)
  moreover have "digits_ok (c # cs)" using digits_ok_all [OF ne all] cs by simp
  moreover have "digits_val (c # cs) = int n" using digits_val_nat_digits [of n] cs by simp
  moreover have "strip_int (c # cs) = c # cs" using s cs by simp
  ultimately show ?thesis by (simp add: py_int_def cs)
qed

lemma py_int_str_int: "py_int (str_int i) = Some i"
proof (cases "i < 0")
  case False
  then show ?thesis by (simp add: str_int_def py_int_nat_digits)
next
  case True
  let ?ds = "nat_digits (nat (- i))"
  have ne: "?ds \<noteq> []" by (rule nat_digits_nonempty)
  have all: "list_all is_digit ?ds" by (rule nat_digits_all)
  from ne all have l: "is_digit (last ?ds)" by (auto simp: list_all_iff)
  have "strip_int (CHR ''-'' # ?ds) = CHR ''-'' # ?ds"
    using ne l by (intro strip_int_id) (auto dest: digit_not_special simp: is_int_space_def ord_minus)
  with True show ?thesis
    by (simp add: str_int_def py_int_def digits_ok_all [OF ne all] digits_val_nat_digits)
qed

lemma str_int_no_underscore: "CHR ''_'' \<notin> set (str_int i)"
  using nat_digits_all [of "nat i"] nat_digits_all [of "nat (- i)"]
  by (auto simp: str_int_def list_all_iff dest: digit_not_special)

lemma split_no_sep: "sep \<notin> set a \<Longrightarrow> split sep a = [a]"
  by (induction a) auto

lemma split_at_sep: "sep \<notin> set a \<Longrightarrow> split sep (a @ sep # b) = a # split sep b"
  by (induction a) auto

lemma parse_ad_id_new:
  assumes "CHR ''_'' \<notin> set a" and "CHR ''_'' \<notin> set b"
  shows "parse_ad_id (a @ ''_'' @ b) = int_pair a b"
  using assms by (simp add: parse_ad_id_def split_at_sep split_no_sep)

lemma parse_ad_id_legacy:
  assumes "CHR ''_'' \<notin> set a" and "CHR ''_'' \<notin> set b"
  shows "parse_ad_id (''ad_'' @ a @ ''_'' @ b) = int_pair a b"
proof -
  have "split CHR ''_'' (''ad'' @ CHR ''_'' # (a @ CHR ''_'' # b)) = ''ad'' # split CHR ''_'' (a @ CHR ''_'' # b)"
    by (rule split_at_sep) simp
  then have "split CHR ''_'' (''ad_'' @ a @ ''_'' @ b) = [''ad'', a, b]"
    using assms by (simp add: split_at_sep split_no_sep)
  then show ?thesis by (simp add: parse_ad_id_def)
qed

lemma python_string_examples:
  "str_int 5 = ''5'' \<and> str_int (- 42) = ''-42'' \<and> str_int 0 = ''0'' \<and> str_int 1203 = ''1203'' \<and>
   py_int '' +12_3 '' = Some 123 \<and> py_int ''1__2'' = None \<and> py_int ''-'' = None \<and>
   py_int ''0x5'' = None \<and> py_int ''05'' = Some 5 \<and>
   split CHR ''_'' ''a__b'' = [''a'', [], ''b''] \<and> split CHR ''_'' [] = [[]] \<and>
   split CHR ''_'' ''_'' = [[], []]"
  by code_simp

lemma parse_ad_id_examples:
  "parse_ad_id ''5'' = (Some 5, None) \<and> parse_ad_id ''ad_5'' = (None, None) \<and>
   parse_ad_id ''5_3_x'' = (Some 5, Some 3) \<and> parse_ad_id ''ad_5_x'' = (None, None) \<and>
   parse_ad_id [] = (None, None)"
  by code_simp

lemma parse_5_3: "parse_ad_id ''5_3'' = (Some 5, Some 3)"
  by code_simp

lemma parse_ad_5_3: "parse_ad_id ''ad_5_3'' = (Some 5, Some 3)"
  by code_simp


lemma get_v: "get_event_type ''v'' = Some IMPRESSION"
  by code_simp

lemma get_CLK: "get_event_type ''CLK'' = Some CLICK"
  by code_simp

lemma get_click: "get_event_type ''click'' = Some CLICK"
  by code_simp

lemma get_purchase: "get_event_type ''purchase'' = None"
  by code_simp


lemma demo_run:
  "track_event demo_env demo_ledger ''r1'' ''5_3'' ''v'' (Some ''u1'') None =
     (True,
      \<lparr>campaigns = (Map.empty(5 \<mapsto> demo_campaign))(5 \<mapsto> demo_campaign\<lparr>spent_today := 1 / 500, spent_total := 1 / 500\<rparr>),
       events = [\<lparr>request_id = ''r1'', campaign_id = Some 5, creative_id = Some 3,
                  event_type = IMPRESSION, event_time = 1700000000, user_id = Some ''u1'',
                  cost = 1 / 500\<rparr>],
       store =
         expire (incr (expire (incr (expire (hincrby empty_store
           (StatHourly 5 ''2023111422'') ''impressions'' 1) (StatHourly 5 ''2023111422'') (48 * 3600))
           (FreqDaily ''u1'' 5 ''20231114'')) (FreqDaily ''u1'' 5 ''20231114'') (24 * 3600))
           (FreqHourly ''u1'' 5 ''2023111422'')) (FreqHourly ''u1'' 5 ''2023111422'') 3600\<rparr>)"
  by (simp add: track_event_def parse_5_3 get_v event_time_of_def demo_env_def demo_ledger_def
      calculate_cost_def bid_cost_def demo_campaign_def CPM_def update_stats_def
      frequency_step_def update_frequency_def stat_field_def Let_def)

lemma freq_counters_track_event:
  assumes "et_opt = get_event_type etype" and "et_opt \<noteq> Some IMPRESSION \<or> \<not> present uid"
  shows "freq_counters (store (snd (track_event e s rid ad_id etype uid ts))) = freq_counters (store s)"
proof (cases "track_event e s rid ad_id etype uid ts")
  case (Pair ok s')
  obtain cid crid where p: "parse_ad_id ad_id = (cid, crid)" by (cases "parse_ad_id ad_id")
  show ?thesis
  proof (cases "get_event_type etype")
    case None
    then show ?thesis by (simp add: track_event_def p)
  next
    case (Some et)
    with assms have idle: "et \<noteq> IMPRESSION \<or> \<not> present uid" by auto
    show ?thesis
      using Some p frequency_step_idle [OF idle]
      by (auto simp: track_event_def Let_def freq_counters_update_stats
          split: option.splits prod.splits)
  qed
qed


lemma parse_ad_id_pair_iff:
  "parse_ad_id ad_id = (Some c, Some r) \<longleftrightarrow>
     (let parts = split CHR ''_'' ad_id in
      if length parts \<ge> 3 \<and> parts ! 0 = ''ad''
      then py_int (parts ! 1) = Some c \<and> py_int (parts ! 2) = Some r
      else length parts \<ge> 2 \<and> py_int (parts ! 0) = Some c \<and> py_int (parts ! 1) = Some r)"
  by (auto simp: parse_ad_id_def int_pair_def Let_def split: option.splits)



subsection \<open>C1: the cost of an event\<close>

text \<open>
  Claim C1. The cost \<^verbatim>\<open>_calculate_cost\<close> returns is a function of the campaign's bid
  type and bid amount and of the event type: for a campaign that exists and is not a
  house ad, CPM or OCPM with an impression costs a thousandth of the bid, CPC with a
  click costs the bid, CPA with a conversion costs the bid, and every other pair of bid
  type and event type costs 0; a house ad costs 0, and so does an event whose campaign
  is absent (no identifier, or no row under it).
\<close>

theorem cost_by_bid_type_and_event:
  "(cid = None \<longrightarrow> fst (calculate_cost tbl et cid) = 0) \<and>
   (\<forall>i. cid = Some i \<and> tbl i = None \<longrightarrow> fst (calculate_cost tbl et cid) = 0) \<and>
   (\<forall>i c. cid = Some i \<and> tbl i = Some c \<and> is_house_ad c \<longrightarrow> fst (calculate_cost tbl et cid) = 0) \<and>
   (\<forall>i c. cid = Some i \<and> tbl i = Some c \<and> \<not> is_house_ad c \<longrightarrow>
      fst (calculate_cost tbl et cid) =
        (if (bid_type c = CPM \<or> bid_type c = OCPM) \<and> et = IMPRESSION then bid_amount c / 1000
         else if bid_type c = CPC \<and> et = CLICK then bid_amount c
         else if bid_type c = CPA \<and> et = CONVERSION then bid_amount c
         else 0))"
  by (auto simp: calculate_cost_def bid_cost_def Let_def CPM_def CPC_def CPA_def OCPM_def
      split: option.splits)

theorem cost_by_bid_type_and_event_witness:
  "fst (calculate_cost (Map.empty(5 \<mapsto> demo_campaign)) IMPRESSION (Some 5)) = 1 / 500 \<and>
   fst (calculate_cost (Map.empty(5 \<mapsto> demo_campaign)) CLICK (Some 5)) = 0 \<and>
   fst (calculate_cost (Map.empty(5 \<mapsto> demo_campaign)) IMPRESSION (Some 6)) = 0"
  using cost_by_bid_type_and_event [of "Some 5" "Map.empty(5 \<mapsto> demo_campaign)" IMPRESSION]
    cost_by_bid_type_and_event [of "Some 5" "Map.empty(5 \<mapsto> demo_campaign)" CLICK]
    cost_by_bid_type_and_event [of "Some 6" "Map.empty(5 \<mapsto> demo_campaign)" IMPRESSION]
  by (simp add: demo_campaign_def CPM_def CPC_def CPA_def OCPM_def)

subsection \<open>C2: spend follows cost\<close>

text \<open>
  Claim C2. A call of \<^verbatim>\<open>track_event\<close> either persists nothing (then it returns
  False and no campaign row changes) or appends exactly one event; when the cost of that
  event is greater than 0, the row of its campaign has \<^verbatim>\<open>spent_today\<close> and
  \<^verbatim>\<open>spent_total\<close> each increased by exactly that cost in the same resulting state and
  no other row changes; when the cost is not greater than 0, the campaign table is
  unchanged.
\<close>

theorem spend_rises_by_cost:
  assumes "track_event e s rid ad_id etype uid ts = (ok, s')"
  shows "(\<not> ok \<and> events s' = events s \<and> campaigns s' = campaigns s) \<or>
         (\<exists>ev. events s' = events s @ [ev] \<and>
            (if cost ev > 0
             then \<exists>i row. campaign_id ev = Some i \<and> campaigns s i = Some row \<and>
                    campaigns s' = (campaigns s)(i \<mapsto> row\<lparr>spent_today := spent_today row + cost ev,
                                                          spent_total := spent_total row + cost ev\<rparr>)
             else campaigns s' = campaigns s))"
proof (cases "events s' = events s")
  case True
  then show ?thesis
    using assms
    by (auto simp: track_event_def Let_def split: prod.splits option.splits if_splits)
next
  case False
  obtain cid crid where p: "parse_ad_id ad_id = (cid, crid)" by (cases "parse_ad_id ad_id")
  from False assms p obtain et tm c tbl where
    et: "get_event_type etype = Some et" and tm: "event_time_of e ts = Some tm"
    and cc: "calculate_cost (campaigns s) et cid = (c, tbl)"
    and ev: "events s' = events s @ [\<lparr>request_id = rid, campaign_id = cid, creative_id = crid,
                          event_type = et, event_time = tm, user_id = uid, cost = c\<rparr>]"
    and tb: "campaigns s' = tbl"
    by (auto simp: track_event_def Let_def split: prod.splits option.splits if_splits)
  from calculate_cost_table [OF cc] ev tb show ?thesis
    by (auto split: if_splits)
qed

theorem spend_rises_by_cost_witness:
  "fst (track_event demo_env demo_ledger ''r1'' ''5_3'' ''v'' (Some ''u1'') None) \<and>
   (\<exists>ev. events (snd (track_event demo_env demo_ledger ''r1'' ''5_3'' ''v'' (Some ''u1'') None)) = [ev] \<and>
      cost ev = 1 / 500 \<and>
      campaigns (snd (track_event demo_env demo_ledger ''r1'' ''5_3'' ''v'' (Some ''u1'') None)) 5 =
        Some (demo_campaign\<lparr>spent_today := spent_today demo_campaign + cost ev,
                            spent_total := spent_total demo_campaign + cost ev\<rparr>))"
  using spend_rises_by_cost [OF demo_run] unfolding demo_run
  by (simp add: demo_campaign_def)

subsection \<open>C3: an ad identifier that does not parse\<close>



subsection \<open>C4: the two encodings of an ad identifier\<close>

text \<open>
  Claim C4. For all campaign and creative identifiers, the identifier
  \<^verbatim>\<open>"{campaign}_{creative}"\<close> and the legacy identifier
  \<^verbatim>\<open>"ad_{campaign}_{creative}"\<close> both parse to the pair of the campaign and the
  creative, the leading token \<^verbatim>\<open>ad\<close> telling them apart; in particular \<^verbatim>\<open>"5_3"\<close>
  and \<^verbatim>\<open>"ad_5_3"\<close> both parse to campaign 5 and creative 3.
\<close>

theorem both_ad_id_encodings_parse_alike:
  "parse_ad_id (str_int campaign @ ''_'' @ str_int creative) = (Some campaign, Some creative) \<and>
   parse_ad_id (''ad_'' @ str_int campaign @ ''_'' @ str_int creative) = (Some campaign, Some creative) \<and>
   parse_ad_id ''5_3'' = (Some 5, Some 3) \<and>
   parse_ad_id ''ad_5_3'' = (Some 5, Some 3)"
proof -
  have "int_pair (str_int campaign) (str_int creative) = (Some campaign, Some creative)"
    by (simp add: int_pair_def py_int_str_int)
  then show ?thesis
    using parse_ad_id_new [OF str_int_no_underscore str_int_no_underscore, of campaign creative]
      parse_ad_id_legacy [OF str_int_no_underscore str_int_no_underscore, of campaign creative]
    by (simp add: parse_5_3 parse_ad_5_3)
qed

subsection \<open>C5: event types\<close>

text \<open>
  Claim C5. The event type string is read without regard to case: impression, imp and v
  are an impression, click, clk and c a click, conversion, conv and x a conversion. For
  every other string \<^verbatim>\<open>track_event\<close> returns False and the ledger (events, spend,
  statistics and frequency counters) is what it was.
\<close>

theorem unknown_event_type_changes_nothing:
  "get_event_type t =
     (if lower t \<in> {''impression'', ''imp'', ''v''} then Some IMPRESSION
      else if lower t \<in> {''click'', ''clk'', ''c''} then Some CLICK
      else if lower t \<in> {''conversion'', ''conv'', ''x''} then Some CONVERSION
      else None) \<and>
   (lower t \<notin> {''impression'', ''imp'', ''v'', ''click'', ''clk'', ''c'', ''conversion'', ''conv'', ''x''}
      \<longrightarrow> track_event e s rid ad_id t uid ts = (False, s))"
  by (auto simp: get_event_type_def event_aliases_def track_event_def split: prod.splits)

theorem unknown_event_type_changes_nothing_witness:
  "get_event_type ''CLK'' = Some CLICK \<and>
   track_event demo_env demo_ledger ''r1'' ''5_3'' ''purchase'' (Some ''u1'') None = (False, demo_ledger)"
proof -
  have l1: "lower ''CLK'' = ''clk''" by code_simp
  have l2: "lower ''purchase'' = ''purchase''" by code_simp
  show ?thesis
    using unknown_event_type_changes_nothing [of "''CLK''"]
      unknown_event_type_changes_nothing [of "''purchase''" demo_env demo_ledger "''r1''" "''5_3''" "Some ''u1''" None]
    by (simp add: l1 l2)
qed

subsection \<open>C10: frequency counters\<close>

text \<open>
  Claim C10. The GET endpoint for tracking pixels submits every event without a user, and
  \<^verbatim>\<open>track_event\<close> touches the frequency counters only for an impression with a known
  user: so no event tracked through the pixel endpoint changes a frequency counter, and
  neither does any event that is not an impression or that has no user, whoever calls.
\<close>

theorem pixel_events_leave_frequency_counters:
  "freq_counters (store (snd (track_event_get e s t r i))) = freq_counters (store s) \<and>
   (get_event_type etype \<noteq> Some IMPRESSION \<or> \<not> present uid \<longrightarrow>
      freq_counters (store (snd (track_event e s rid ad_id etype uid ts))) = freq_counters (store s))"
  using freq_counters_track_event [of _ etype uid e s rid ad_id ts]
    freq_counters_track_event [of _ t None e s r i "Some (now e)"]
  by (simp add: track_event_get_def present_def)

theorem pixel_events_leave_frequency_counters_witness:
  "freq_counters (store (snd (track_event_get demo_env demo_ledger ''v'' ''r1'' ''5_3''))) = freq_counters empty_store \<and>
   freq_counters (store (snd (track_event demo_env demo_ledger ''r1'' ''5_3'' ''click'' (Some ''u1'') None)))
     = freq_counters empty_store \<and>
   fst (track_event_get demo_env demo_ledger ''v'' ''r1'' ''5_3'') \<and>
   freq_counters (store (snd (track_event demo_env demo_ledger ''r1'' ''5_3'' ''v'' (Some ''u1'') None)))
      (FreqDaily ''u1'' 5 ''20231114'') = Some (1, Some 86400)"
  using pixel_events_leave_frequency_counters [of demo_env demo_ledger "''v''" "''r1''" "''5_3''" "''click''" "Some ''u1''" "''r1''" "''5_3''" None]
  by (simp add: get_click demo_ledger_def demo_run freq_counters_def expire_def incr_def hincrby_def empty_store_def
     track_event_get_def track_event_def parse_5_3 get_v event_time_of_def demo_env_def
      calculate_cost_def bid_cost_def demo_campaign_def CPM_def update_stats_def
      frequency_step_def update_frequency_def stat_field_def Let_def timestamp_ok_def)

section \<open>Properties of retrieval\<close>

lemma bind_Inr_iff: "bind m f = Inr y \<longleftrightarrow> (\<exists>x. m = Inr x \<and> f x = Inr y)"
  by (cases m) (auto simp: bind_def)

lemma bind_Inr [simp]: "bind (Inr x) f = f x"
  by (simp add: bind_def)

lemma bind_Inl [simp]: "bind (Inl e) f = Inl e"
  by (simp add: bind_def)

text \<open>What the inner loop adds to the two lists when it is not cut short.\<close>

lemma creatives_loop_prefix:
  assumes "creatives_loop limit dims cd crs b = b'"
  defines "cs \<equiv> map (candidate cd) (filter (\<lambda>cr. creative_matches_slot cr dims) crs)"
  shows "\<exists>k. b' = (if cd_is_house_ad cd then (fst b, snd b @ take k cs) else (fst b @ take k cs, snd b))
           \<and> (both_full limit b' \<or> length cs \<le> k)"
  using assms(1) unfolding cs_def
proof (induction crs arbitrary: b)
  case Nil
  then show ?case by auto
next
  case (Cons cr crs)
  let ?cs = "map (candidate cd) (filter (\<lambda>cr. creative_matches_slot cr dims) crs)"
  show ?case
  proof (cases "creative_matches_slot cr dims")
    case False
    with Cons.prems have "creatives_loop limit dims cd crs b = b'" by simp
    from Cons.IH [OF this] obtain k where
      "b' = (if cd_is_house_ad cd then (fst b, snd b @ take k ?cs) else (fst b @ take k ?cs, snd b))"
      "both_full limit b' \<or> length ?cs \<le> k"
      by blast
    with False show ?thesis
      by (intro exI [of _ k]) simp
  next
    case True
    let ?b1 = "if cd_is_house_ad cd then (fst b, snd b @ [candidate cd cr])
               else (fst b @ [candidate cd cr], snd b)"
    show ?thesis
    proof (cases "both_full limit ?b1")
      case full: True
      with True Cons.prems have "b' = ?b1" by (simp add: Let_def)
      with full True show ?thesis
        by (intro exI [of _ 1]) (auto simp: Let_def)
    next
      case notfull: False
      with True Cons.prems have "creatives_loop limit dims cd crs ?b1 = b'" by (simp add: Let_def)
      from Cons.IH [OF this] obtain k where
        k: "b' = (if cd_is_house_ad cd then (fst ?b1, snd ?b1 @ take k ?cs) else (fst ?b1 @ take k ?cs, snd ?b1))"
           "both_full limit b' \<or> length ?cs \<le> k"
        by blast
      with True show ?thesis
        by (intro exI [of _ "Suc k"]) (auto split: if_splits)
    qed
  qed
qed

lemma prefix_take_app: "prefix (take k xs) (xs @ ys)"
  by (simp add: take_is_prefix prefix_prefix)

lemma prefix_app_self: "prefix a (a @ ys)"
  by (simp add: prefix_def)

lemma bucket_Nil [simp]: "bucket house L ctx url dims [] = []"
  by (simp add: bucket_def)

lemma bucket_Cons:
  "bucket house L ctx url dims (cd # cds) =
     (if cd_is_house_ad cd = house \<and> eligible L ctx url cd = Inr True then slot_candidates dims cd else [])
     @ bucket house L ctx url dims cds"
  by (simp add: bucket_def)

lemma campaigns_loop_prefix:
  assumes "campaigns_loop L ctx url limit dims cds b = Inr b'"
  shows "prefix (fst b') (fst b @ bucket False L ctx url dims cds) \<and>
         prefix (snd b') (snd b @ bucket True L ctx url dims cds) \<and>
         (both_full limit b' \<or>
          b' = (fst b @ bucket False L ctx url dims cds, snd b @ bucket True L ctx url dims cds))"
  using assms
proof (induction cds arbitrary: b)
  case Nil
  then show ?case by auto
next
  case (Cons cd cds)
  from Cons.prems obtain ok where ok: "eligible L ctx url cd = Inr ok"
    and rest: "(if \<not> ok then campaigns_loop L ctx url limit dims cds b
                else (let b1 = creatives_loop limit dims cd (cd_creatives cd) b
                      in if both_full limit b1 then Inr b1
                         else campaigns_loop L ctx url limit dims cds b1)) = Inr b'"
    by (auto simp: bind_Inr_iff)
  show ?case
  proof (cases ok)
    case False
    with ok rest Cons.IH [of b] show ?thesis by (simp add: bucket_Cons)
  next
    case True
    define b1 where "b1 = creatives_loop limit dims cd (cd_creatives cd) b"
    from creatives_loop_prefix [OF b1_def [symmetric]] obtain k where
      k: "b1 = (if cd_is_house_ad cd then (fst b, snd b @ take k (slot_candidates dims cd))
                else (fst b @ take k (slot_candidates dims cd), snd b))"
         "both_full limit b1 \<or> length (slot_candidates dims cd) \<le> k"
      unfolding slot_candidates_def by blast
    show ?thesis
    proof (cases "both_full limit b1")
      case full: True
      with True rest have "b' = b1" by (simp add: b1_def Let_def)
      with full k(1) ok True show ?thesis
        by (auto simp: bucket_Cons prefix_take_app prefix_app_self)
    next
      case notfull: False
      with True rest have "campaigns_loop L ctx url limit dims cds b1 = Inr b'"
        by (simp add: b1_def Let_def)
      from Cons.IH [OF this] notfull k ok True show ?thesis
        by (auto simp: bucket_Cons split: if_splits)
    qed
  qed
qed

lemma take_prefix: "prefix xs ys \<Longrightarrow> n \<le> length xs \<Longrightarrow> take n xs = take n ys"
  by (auto simp: prefix_def)

lemma slot_sidebar: "parse_slot_dimensions ''sidebar-300x250'' = Some (300, 250)"
  by code_simp

lemma slot_examples:
  "parse_slot_dimensions ''leaderboard-728x90'' = Some (728, 90) \<and>
   parse_slot_dimensions ''homepage-banner'' = None \<and>
   parse_slot_dimensions ''12y34x56'' = Some (34, 56) \<and>
   parse_slot_dimensions ''12xx3'' = None \<and>
   parse_slot_dimensions ''a1x2x3'' = Some (1, 2) \<and>
   parse_slot_dimensions ''007x'' = None"
  by code_simp

lemma eligible_demo:
  "eligible demo_lib demo_context None (campaign_dict demo_campaign) = Inr True"
  "eligible demo_lib demo_context None (campaign_dict house_campaign) = Inr True"
  by (simp_all add: eligible_def match_targeting_def match_page_targeting_def
      match_domain_targeting_def campaign_dict_def demo_campaign_def house_campaign_def)

lemma demo_dicts:
  "cd_creatives (campaign_dict demo_campaign) = [creative_dict demo_creative]"
  "cd_creatives (campaign_dict house_campaign) = [creative_dict demo_creative]"
  "cd_is_house_ad (campaign_dict demo_campaign) = False"
  "cd_is_house_ad (campaign_dict house_campaign) = True"
  "creative_matches_slot (creative_dict demo_creative) (Some (300, 250))"
  by (simp_all add: campaign_dict_def demo_campaign_def house_campaign_def demo_creative_def
      creative_dict_def creative_matches_slot_def)

lemma demo_rows:
  "is_active demo_campaign" "c_status demo_campaign = ACTIVE"
  "is_active house_campaign" "c_status house_campaign = ACTIVE"
  "str_value empty_store ActiveAds = None" "page_url demo_context = None"
  by (simp_all add: demo_campaign_def house_campaign_def empty_store_def demo_context_def)

lemma demo_snapshot:
  "get_active_campaigns [house_campaign, demo_campaign] empty_store =
     ([campaign_dict house_campaign, campaign_dict demo_campaign],
      set_ttl empty_store ActiveAds (Encoded [campaign_dict house_campaign, campaign_dict demo_campaign]) 300)"
  "get_active_campaigns [demo_campaign] empty_store =
     ([campaign_dict demo_campaign],
      set_ttl empty_store ActiveAds (Encoded [campaign_dict demo_campaign]) 300)"
  by (simp_all add: get_active_campaigns_def query_active_def demo_dicts demo_rows cache_ttl_def Let_def)

lemma demo_retrieve:
  "retrieve demo_lib [house_campaign, demo_campaign] empty_store demo_context ''sidebar-300x250'' 1 None =
     (Inr [candidate (campaign_dict demo_campaign) (creative_dict demo_creative)],
      set_ttl empty_store ActiveAds (Encoded [campaign_dict house_campaign, campaign_dict demo_campaign]) 300)"
  by (simp add: retrieve_def demo_snapshot slot_sidebar present_def demo_rows
      eligible_demo demo_dicts both_full_def slice_to_def Let_def)

lemma campaign_list_eq:
  "campaign_list rows =
     map campaign_dict
       (filter (\<lambda>c. is_active c \<and> list_ex (\<lambda>cr. cr_status cr = ACTIVE) (creatives c)) rows)"
  by (induction rows) (auto simp: campaign_dict_def list_ex_iff filter_empty_conv)





lemma extract_examples:
  "extract_domain L ''https://www.asla.org/page'' = Some ''asla.org'' \<and>
   extract_domain L ''HTTPS://WWW.Example.COM/p?q#f'' = Some ''example.com'' \<and>
   extract_domain L ''https://example.com:8080/x'' = Some ''example.com:8080'' \<and>
   extract_domain L ''example.com/x'' = Some [] \<and>
   extract_domain L ''/about'' = Some [] \<and>
   extract_domain L ''https://localhost/x'' = Some ''localhost'' \<and>
   extract_domain L ''https://[::1/x'' = None \<and>
   extract_domain L [] = None \<and>
   extract_domain L ''  ht+tp://a.b.c.d'' = Some ''c.d''"
  by code_simp

subsection \<open>C6: the snapshot on a cache miss\<close>

text \<open>
  Claim C6, as amended. On a cache miss (no snapshot under the key, or a value that does
  not decode) the lookup queries at most 1000 campaigns of status ACTIVE and builds the
  snapshot of exactly those queried campaigns whose \<^verbatim>\<open>is_active\<close> property holds and
  that have at least one ACTIVE creative, each with its ACTIVE creatives and all its
  targeting rules; a snapshot that is not empty is stored in the cache with an expiry of
  300 seconds, and an empty one is returned without any write to the cache.
\<close>

theorem snapshot_on_cache_miss:
  assumes miss: "\<forall>snapshot. str_value r ActiveAds \<noteq> Some (Encoded snapshot)"
  shows "length (query_active tbl) \<le> 1000 \<and>
         query_active tbl = take 1000 (filter (\<lambda>c. c_status c = ACTIVE) tbl) \<and>
         (let built = map campaign_dict
                        (filter (\<lambda>c. is_active c \<and> list_ex (\<lambda>cr. cr_status cr = ACTIVE) (creatives c))
                           (query_active tbl))
          in get_active_campaigns tbl r =
               (built, if built = [] then r else set_ttl r ActiveAds (Encoded built) 300) \<and>
             list_all (\<lambda>c. cd_creatives (campaign_dict c) =
                              map creative_dict (filter (\<lambda>cr. cr_status cr = ACTIVE) (creatives c)) \<and>
                            cd_targeting_rules (campaign_dict c) = targeting_rules c) (query_active tbl))"
proof -
  have "get_active_campaigns tbl r =
          (let built = campaign_list (query_active tbl)
           in if built \<noteq> [] then (built, set_ttl r ActiveAds (Encoded built) cache_ttl) else (built, r))"
    using miss by (auto simp: get_active_campaigns_def split: option.splits cached.splits)
  then show ?thesis
    by (simp add: campaign_list_eq Let_def cache_ttl_def query_active_def list_all_iff campaign_dict_def)
qed

theorem snapshot_on_cache_miss_witness:
  "get_active_campaigns [demo_campaign, demo_campaign\<lparr>c_id := 6, creatives := []\<rparr>] empty_store =
     ([campaign_dict demo_campaign],
      set_ttl empty_store ActiveAds (Encoded [campaign_dict demo_campaign]) 300)"
proof -
  have miss: "\<forall>snapshot. str_value empty_store ActiveAds \<noteq> Some (Encoded snapshot)"
    by (simp add: empty_store_def)
  show ?thesis
    using snapshot_on_cache_miss [OF miss, of "[demo_campaign, demo_campaign\<lparr>c_id := 6, creatives := []\<rparr>]"]
    by (simp add: query_active_def demo_campaign_def demo_creative_def Let_def)
qed

text \<open>The claim as it was stated, that every cache miss stores the snapshot, fails when
  no campaign qualifies, here an active campaign without a creative: nothing is stored
  and no expiry is set.\<close>

theorem empty_snapshot_is_not_cached_counterexample:
  "str_value empty_store ActiveAds = None \<and>
   get_active_campaigns [demo_campaign\<lparr>creatives := []\<rparr>] empty_store = ([], empty_store) \<and>
   str_value (snd (get_active_campaigns [demo_campaign\<lparr>creatives := []\<rparr>] empty_store)) ActiveAds = None \<and>
   expiry (snd (get_active_campaigns [demo_campaign\<lparr>creatives := []\<rparr>] empty_store)) ActiveAds = None"
  by (simp add: get_active_campaigns_def empty_store_def query_active_def demo_campaign_def
      campaign_dict_def)

subsection \<open>C7: paid candidates before house ads\<close>

text \<open>
  Claim C7, as amended. For every user context, slot and limit that is not negative,
  whenever \<^verbatim>\<open>retrieve\<close> returns a list, that list is the paid bucket cut to
  \<^verbatim>\<open>limit\<close> elements when the paid bucket is not empty, otherwise the house bucket cut
  to \<^verbatim>\<open>limit\<close> elements when that is not empty, otherwise the empty list; and it
  never has more than \<^verbatim>\<open>limit\<close> elements. The buckets are those of all eligible
  campaigns of the snapshot: the two \<^verbatim>\<open>break\<close>s of the loops do not change the result.
\<close>

theorem retrieve_prefers_paid_bucket:
  assumes limit: "0 \<le> limit"
    and returns: "retrieve L tbl r ctx slot_id limit kw_page_url = (Inr res, r')"
  shows "(let active = fst (get_active_campaigns tbl r);
              dims = parse_slot_dimensions slot_id;
              url = (if present kw_page_url then kw_page_url else page_url ctx);
              paid = bucket False L ctx url dims active;
              house = bucket True L ctx url dims active
          in res = (if paid \<noteq> [] then take (nat limit) paid
                    else if house \<noteq> [] then take (nat limit) house
                    else [])) \<and>
         int (length res) \<le> limit"
proof -
  define active where "active = fst (get_active_campaigns tbl r)"
  define dims where "dims = parse_slot_dimensions slot_id"
  define url where "url = (if present kw_page_url then kw_page_url else page_url ctx)"
  define paid where "paid = bucket False L ctx url dims active"
  define house where "house = bucket True L ctx url dims active"
  have goal: "res = (if paid \<noteq> [] then take (nat limit) paid
                    else if house \<noteq> [] then take (nat limit) house
                    else [])"
  proof (cases "active = []")
    case True
    with returns show ?thesis
      by (auto simp: retrieve_def active_def paid_def house_def split: prod.splits)
  next
    case False
    with returns obtain b where
      loop: "campaigns_loop L ctx url limit dims active ([], []) = Inr b"
      and res: "res = (if fst b \<noteq> [] then slice_to limit (fst b)
                       else if snd b \<noteq> [] then slice_to limit (snd b) else [])"
      by (auto simp: retrieve_def active_def dims_def url_def Let_def bind_Inr_iff
          split: prod.splits if_splits)
    from campaigns_loop_prefix [OF loop] have
      pp: "prefix (fst b) paid" and ph: "prefix (snd b) house"
      and full: "both_full limit b \<or> b = (paid, house)"
      by (simp_all add: paid_def house_def)
    show ?thesis
    proof (cases "b = (paid, house)")
      case True
      with res limit show ?thesis by (simp add: slice_to_def)
    next
      case False
      with full have bf: "nat limit \<le> length (fst b)" "nat limit \<le> length (snd b)"
        using limit by (auto simp: both_full_def)
      show ?thesis
      proof (cases "limit = 0")
        case True
        with res show ?thesis by (simp add: slice_to_def)
      next
        case False
        with limit bf have ne: "fst b \<noteq> []" by auto
        with pp have "paid \<noteq> []" by (auto simp: prefix_def)
        with res ne limit take_prefix [OF pp bf(1)] show ?thesis
          by (simp add: slice_to_def)
      qed
    qed
  qed
  from goal limit have "int (length res) \<le> limit" by (auto split: if_splits)
  with goal show ?thesis
    by (simp add: Let_def active_def dims_def url_def paid_def house_def)
qed

theorem retrieve_prefers_paid_bucket_witness:
  "retrieve demo_lib [house_campaign, demo_campaign] empty_store demo_context ''sidebar-300x250'' 1 None =
     (Inr [candidate (campaign_dict demo_campaign) (creative_dict demo_creative)],
      set_ttl empty_store ActiveAds (Encoded [campaign_dict house_campaign, campaign_dict demo_campaign]) 300) \<and>
   bucket False demo_lib demo_context None (Some (300, 250))
      [campaign_dict house_campaign, campaign_dict demo_campaign] =
     [candidate (campaign_dict demo_campaign) (creative_dict demo_creative)] \<and>
   bucket True demo_lib demo_context None (Some (300, 250))
      [campaign_dict house_campaign, campaign_dict demo_campaign] =
     [candidate (campaign_dict house_campaign) (creative_dict demo_creative)]"
proof -
  have "(0::int) \<le> 1" by simp
  from retrieve_prefers_paid_bucket [OF this demo_retrieve] show ?thesis
    by (simp add: demo_retrieve bucket_def slot_candidates_def eligible_demo demo_dicts)
qed

text \<open>The claim as it was stated, for every limit, fails for the limit -1: the paid
  bucket holds a candidate, the slice \<^verbatim>\<open>paid_candidates[:-1]\<close> is empty, and its
  length 0 is more than -1.\<close>

theorem negative_limit_counterexample:
  "fst (retrieve demo_lib [demo_campaign] empty_store demo_context ''sidebar-300x250'' (- 1) None) = Inr [] \<and>
   bucket False demo_lib demo_context None (Some (300, 250)) [campaign_dict demo_campaign] =
     [candidate (campaign_dict demo_campaign) (creative_dict demo_creative)] \<and>
   \<not> int (length ([] :: ad_candidate list)) \<le> - 1"
  by (simp add: retrieve_def demo_snapshot slot_sidebar present_def demo_rows
      eligible_demo demo_dicts both_full_def slice_to_def Let_def bucket_def slot_candidates_def)

subsection \<open>C8: domain targeting\<close>




subsection \<open>C9: the rule matcher fails open\<close>

text \<open>
  Claim C9. For every rule value and user context, a rule whose type is none of age,
  gender, geo, device, os, interest and app_category matches, and an age rule matches
  when the user's age is unknown, whatever the rule value is.
\<close>

theorem rule_matcher_fails_open:
  "(rt \<notin> {''age'', ''gender'', ''geo'', ''device'', ''os'', ''interest'', ''app_category''}
      \<longrightarrow> match_rule rt rv ctx = Inr True) \<and>
   (age ctx = None \<longrightarrow> match_rule ''age'' rv ctx = Inr True)"
  by (simp add: match_rule_def match_age_def)

theorem rule_matcher_fails_open_witness:
  "match_rule ''weather'' (JStr ''rain'') demo_context = Inr True \<and>
   match_rule ''age'' (JObj [(''min'', JStr ''old'')]) demo_context = Inr True \<and>
   match_rule ''age'' (JObj [(''min'', JStr ''old'')]) (demo_context\<lparr>age := Some 30\<rparr>) = Inl TypeError \<and>
   match_rule ''age'' (JObj [(''min'', JNum 18), (''max'', JNum 25)]) (demo_context\<lparr>age := Some 30\<rparr>) = Inr False"
  using rule_matcher_fails_open [of "''weather''" "JStr ''rain''" demo_context]
    rule_matcher_fails_open [of _ "JObj [(''min'', JStr ''old'')]" demo_context]
  by (simp add: demo_context_def match_rule_def match_age_def bind_def)

end
